theory Spec2Isabelle
  imports Main "HOL-Library.Sublist"
begin

section \<open>Python values, exceptions and slices\<close>

text \<open>
  A Python exception that derives from \<open>Exception\<close> is a kind together with the text that
  \<open>str(e)\<close> yields. Every function of the program that can raise returns a value of
  \<open>exn + 'a\<close>, with \<open>Inl\<close> for the raised exception.
\<close>

datatype exn_kind =
    ValueError | TypeError | KeyError | AttributeError | ZeroDivisionError
  | OverflowError | HTTPException nat | OtherError

datatype exn = Exn (kind: exn_kind) (message: string)

text \<open>
  A float is carried as \<open>m * 2 ^ e\<close> (or one of the special values); the program never
  computes with floats, it only stores them.
\<close>

datatype pyfloat = Finite int int | Infinity bool | NaN

datatype pyval = PNone | PStr string | PInt int | PFloat pyfloat

text \<open>
  Strings are lists of characters, one \<open>char\<close> for each character that Python's \<open>len\<close>
  counts. Python slices never raise: \<open>xs[i:]\<close> and \<open>xs[:j]\<close> count a negative bound from
  the end and clip it to the list.
\<close>

definition slice_from :: "int \<Rightarrow> 'a list \<Rightarrow> 'a list" where
  "slice_from i xs =
     (if i < 0 then drop (nat (int (length xs) + i)) xs else drop (nat i) xs)"

definition slice_to :: "int \<Rightarrow> 'a list \<Rightarrow> 'a list" where
  "slice_to j xs =
     (if j < 0 then take (nat (int (length xs) + j)) xs else take (nat j) xs)"

text \<open>\<open>d.get(k, default)\<close> on a dictionary.\<close>

definition dict_get :: "('k \<rightharpoonup> 'v) \<Rightarrow> 'k \<Rightarrow> 'v \<Rightarrow> 'v" where
  "dict_get d k dflt = (case d k of None \<Rightarrow> dflt | Some v \<Rightarrow> v)"

text \<open>
  Python's \<open>repr\<close> of a string: single quotes, unless the string holds a single quote
  and no double quote; the quote in use and the backslash are preceded by a backslash,
  tab, newline and carriage return are written as a backslash and the letter t, n or r,
  and any other character that is not printable is written as a backslash, the letter x
  and two hexadecimal digits.
\<close>

definition printable :: "char \<Rightarrow> bool" where
  "printable c =
     ((32::nat) \<le> of_char c \<and> of_char c < (127::nat)
      \<or> (160::nat) < of_char c \<and> of_char c \<noteq> (173::nat))"

definition hex_digit :: "nat \<Rightarrow> char" where
  "hex_digit n = ''0123456789abcdef'' ! n"

definition repr_char :: "char \<Rightarrow> char \<Rightarrow> string" where
  "repr_char q c =
     (if c = q \<or> c = CHR 0x5C then [CHR 0x5C, c]
      else if c = CHR 0x09 then [CHR 0x5C, CHR ''t'']
      else if c = CHR 0x0A then [CHR 0x5C, CHR ''n'']
      else if c = CHR 0x0D then [CHR 0x5C, CHR ''r'']
      else if printable c then [c]
      else [CHR 0x5C, CHR ''x'', hex_digit (of_char c div 16), hex_digit (of_char c mod 16)])"

definition repr_str :: "string \<Rightarrow> string" where
  "repr_str s =
     (let q = (if CHR 0x27 \<in> set s \<and> CHR 0x22 \<notin> set s then CHR 0x22 else CHR 0x27)
      in [q] @ concat (map (repr_char q) s) @ [q])"

section \<open>The conversational agent (qa_agent.py)\<close>

subsection \<open>The knowledge-source catalog\<close>

text \<open>
  The data frame that \<open>pd.read_csv\<close> returns: the column names and the rows, a cell
  being \<open>None\<close> where the file has no value (pandas' NaN).
\<close>

record dataframe =
  columns :: "string list"
  rows :: "string option list list"

definition required_columns :: "string list" where
  "required_columns = [''site'', ''domain'', ''description'']"

fun join :: "string \<Rightarrow> string list \<Rightarrow> string" where
  "join sep [] = []"
| "join sep [x] = x"
| "join sep (x # y # ys) = x @ sep @ join sep (y # ys)"

text \<open>Python's \<open>repr\<close> of a list of strings.\<close>

definition repr_list :: "string list \<Rightarrow> string" where
  "repr_list xs = ''['' @ join '', '' (map repr_str xs) @ '']''"

definition load_sites_data :: "(string \<Rightarrow> exn + dataframe) \<Rightarrow> string \<Rightarrow> exn + dataframe" where
  "load_sites_data read_csv csv_file_path =
     (case read_csv csv_file_path of
        Inl e \<Rightarrow> Inl e
      | Inr df \<Rightarrow>
          (let missing_columns = filter (\<lambda>col. col \<notin> set (columns df)) required_columns
           in if missing_columns \<noteq> []
              then Inl (Exn ValueError (''Missing required columns: '' @ repr_list missing_columns))
              else Inr df))"

subsection \<open>The agent and its environment\<close>

datatype message = HumanMessage string | AIMessage string

type_synonym config = "string \<rightharpoonup> pyval"

datatype llm = ChatGoogleGenerativeAI string "pyval list"

datatype mcp_client = MultiServerMCPClient pyval

type_synonym tool = string

datatype executor = AgentExecutor llm "tool list"

record agent_input =
  input :: string
  input_chat_history :: "message list"

type_synonym response = "string \<rightharpoonup> string"

text \<open>
  What the agent calls outside the repository: pandas, the model constructor, the MCP
  adapter, the agent framework. Each call returns or raises.
\<close>

record world =
  read_csv :: "string \<Rightarrow> exn + dataframe"
  new_llm :: "string \<Rightarrow> pyval list \<Rightarrow> exn + llm"
  new_mcp_client :: "pyval \<Rightarrow> exn + mcp_client"
  get_tools :: "mcp_client \<Rightarrow> exn + tool list"
  new_executor :: "dataframe \<Rightarrow> llm \<Rightarrow> tool list \<Rightarrow> exn + executor"
  ainvoke :: "executor \<Rightarrow> agent_input \<Rightarrow> exn + response"

record agent =
  agent_config :: config
  mcp_server_url :: pyval
  sites_df :: dataframe
  agent_llm :: llm
  chat_history :: "message list"
  mcp_client :: "mcp_client option"
  tools :: "tool list"
  agent_executor :: "executor option"

definition getitem :: "config \<Rightarrow> string \<Rightarrow> exn + pyval" where
  "getitem c k = (case c k of None \<Rightarrow> Inl (Exn KeyError (repr_str k)) | Some v \<Rightarrow> Inr v)"

definition create_llm :: "world \<Rightarrow> config \<Rightarrow> exn + llm" where
  "create_llm w c =
     (case getitem c ''google_api_key'' of Inl e \<Rightarrow> Inl e | Inr k \<Rightarrow>
      case getitem c ''llm_temperature'' of Inl e \<Rightarrow> Inl e | Inr t \<Rightarrow>
      case getitem c ''llm_max_tokens'' of Inl e \<Rightarrow> Inl e | Inr m \<Rightarrow>
      case getitem c ''llm_timeout'' of Inl e \<Rightarrow> Inl e | Inr tm \<Rightarrow>
        new_llm w ''gemini-2.0-flash'' [k, t, m, tm])"

definition DomainQAAgent_init :: "world \<Rightarrow> string \<Rightarrow> config option \<Rightarrow> exn + agent" where
  "DomainQAAgent_init w csv_file_path cfg =
     (case cfg of
        None \<Rightarrow> Inl (Exn ValueError ''Configuration is required'')
      | Some c \<Rightarrow>
          (case load_sites_data (read_csv w) csv_file_path of
             Inl e \<Rightarrow> Inl e
           | Inr df \<Rightarrow>
               (case create_llm w c of
                  Inl e \<Rightarrow> Inl e
                | Inr l \<Rightarrow>
                    Inr \<lparr> agent_config = c,
                          mcp_server_url =
                            dict_get c ''mcp_server_url'' (PStr ''http://127.0.0.1:8001/mcp''),
                          sites_df = df, agent_llm = l, chat_history = [],
                          mcp_client = None, tools = [], agent_executor = None \<rparr>)))"

text \<open>
  \<open>_initialize_mcp_client\<close>: each assignment to a field of \<open>self\<close> that precedes a raise
  stays in the returned agent.
\<close>

definition initialize_mcp_client :: "world \<Rightarrow> agent \<Rightarrow> (exn + unit) \<times> agent" where
  "initialize_mcp_client w a =
     (if mcp_client a = None then
        (case new_mcp_client w (mcp_server_url a) of
           Inl e \<Rightarrow> (Inl e, a)
         | Inr c \<Rightarrow>
             (let a1 = a\<lparr>mcp_client := Some c\<rparr> in
              case get_tools w c of
                Inl e \<Rightarrow> (Inl e, a1)
              | Inr ts \<Rightarrow>
                  (let a2 = a1\<lparr>tools := ts\<rparr> in
                   case new_executor w (sites_df a2) (agent_llm a2) (tools a2) of
                     Inl e \<Rightarrow> (Inl e, a2)
                   | Inr ex \<Rightarrow> (Inr (), a2\<lparr>agent_executor := Some ex\<rparr>))))
      else (Inr (), a))"

definition make_agent_input :: "agent \<Rightarrow> string \<Rightarrow> agent_input" where
  "make_agent_input a user_input =
     \<lparr> input = user_input,
       input_chat_history =
         (if chat_history a \<noteq> [] then slice_from (- 5) (chat_history a) else []) \<rparr>"

definition fallback_answer :: string where
  "fallback_answer = ''I couldn'' @ [CHR 0x27] @ ''t process your request.''"

text \<open>The body of the \<open>try\<close> block of \<open>achat\<close>.\<close>

definition achat_try :: "world \<Rightarrow> agent \<Rightarrow> string \<Rightarrow> (exn + string) \<times> agent" where
  "achat_try w a user_input =
     (case initialize_mcp_client w a of
        (Inl e, a1) \<Rightarrow> (Inl e, a1)
      | (Inr u, a1) \<Rightarrow>
          (let ai = make_agent_input a1 user_input in
           case agent_executor a1 of
             None \<Rightarrow>
               (Inl (Exn AttributeError
                  ([CHR 0x27] @ ''NoneType'' @ [CHR 0x27] @ '' object has no attribute ''
                     @ [CHR 0x27] @ ''ainvoke'' @ [CHR 0x27])), a1)
           | Some ex \<Rightarrow>
               (case ainvoke w ex ai of
                  Inl e \<Rightarrow> (Inl e, a1)
                | Inr resp \<Rightarrow>
                    (let answer = dict_get resp ''output'' fallback_answer
                     in (Inr answer,
                         a1\<lparr>chat_history :=
                              chat_history a1 @ [HumanMessage user_input, AIMessage answer]\<rparr>)))))"

definition achat :: "world \<Rightarrow> agent \<Rightarrow> string \<Rightarrow> string \<times> agent" where
  "achat w a user_input =
     (case achat_try w a user_input of
        (Inl e, a1) \<Rightarrow> (''Error: '' @ message e, a1)
      | (Inr answer, a1) \<Rightarrow> (answer, a1))"

definition reset_memory :: "agent \<Rightarrow> agent" where
  "reset_memory a = a\<lparr>chat_history := []\<rparr>"

section \<open>The tool server (mcp_server.py)\<close>

subsection \<open>Configuration from the environment\<close>

type_synonym environ = "string \<rightharpoonup> string"

text \<open>\<open>os.getenv(key, default)\<close> with a string default.\<close>

definition getenv :: "environ \<Rightarrow> string \<Rightarrow> string \<Rightarrow> string" where
  "getenv env key dflt = (case env key of None \<Rightarrow> dflt | Some v \<Rightarrow> v)"

text \<open>
  The builtin \<open>int\<close> on a string, base 10: white space around the literal is dropped, a
  sign may lead, and single underscores may stand between digits. Anything else raises
  \<open>ValueError\<close>. (The interpreter's optional limit on the number of digits is left out.)
\<close>

definition is_space :: "char \<Rightarrow> bool" where
  "is_space c = (c \<in> set [CHR 0x09, CHR 0x0A, CHR 0x0B, CHR 0x0C, CHR 0x0D,
                           CHR 0x20, CHR 0x85, CHR 0xA0])"

definition strip :: "string \<Rightarrow> string" where
  "strip s = rev (dropWhile is_space (rev (dropWhile is_space s)))"

definition is_digit :: "char \<Rightarrow> bool" where
  "is_digit c = (c \<in> set ''0123456789'')"

definition digit_value :: "char \<Rightarrow> nat" where
  "digit_value c = of_char c - 48"

fun digits_value :: "nat \<Rightarrow> string \<Rightarrow> nat option" where
  "digits_value acc [] = Some acc"
| "digits_value acc (c # cs) =
     (if is_digit c then digits_value (10 * acc + digit_value c) cs
      else if c = CHR ''_'' \<and> cs \<noteq> [] \<and> is_digit (hd cs) then digits_value acc cs
      else None)"

text \<open>The error text shows at most 200 characters of the \<open>repr\<close> of the argument.\<close>

definition invalid_literal :: "string \<Rightarrow> exn" where
  "invalid_literal s =
     Exn ValueError (''invalid literal for int() with base 10: '' @ take 200 (repr_str s))"

definition unsigned_value :: "string \<Rightarrow> nat option" where
  "unsigned_value s = (case s of [] \<Rightarrow> None | c # cs \<Rightarrow> if is_digit c then digits_value 0 s else None)"

definition py_int :: "string \<Rightarrow> exn + int" where
  "py_int s =
     (let t = strip s;
          r = (case t of
                 [] \<Rightarrow> None
               | c # cs \<Rightarrow>
                   if c = CHR ''-'' then map_option (\<lambda>n. - int n) (unsigned_value cs)
                   else if c = CHR ''+'' then map_option int (unsigned_value cs)
                   else map_option int (unsigned_value t))
      in case r of None \<Rightarrow> Inl (invalid_literal s) | Some i \<Rightarrow> Inr i)"

text \<open>\<open>str.lower\<close>, on the letters A to Z.\<close>

definition lower_char :: "char \<Rightarrow> char" where
  "lower_char c =
     (if (65::nat) \<le> of_char c \<and> of_char c \<le> (90::nat) then char_of (of_char c + (32::nat)) else c)"

definition lower :: "string \<Rightarrow> string" where
  "lower s = map lower_char s"

record server_config =
  google_api_key :: "string option"
  tavily_api_key :: "string option"
  max_results :: int
  search_depth :: string
  max_content_size :: int
  max_scrape_length :: int
  enable_search_summarization :: bool

datatype tavily_client = TavilyClient string

text \<open>
  A \<open>ServerClients\<close> object exists only when its constructor returned, and then its
  Tavily client is set; the summarizer is optional.
\<close>

record server_clients =
  config :: server_config
  tavily_client :: tavily_client
  summarizer_llm :: "llm option"

definition initialize_clients :: "server_config \<Rightarrow> exn + server_clients" where
  "initialize_clients cfg =
     (case tavily_api_key cfg of
        None \<Rightarrow> Inl (Exn ValueError ''TAVILY_API_KEY environment variable is required'')
      | Some key \<Rightarrow>
          if key = [] then Inl (Exn ValueError ''TAVILY_API_KEY environment variable is required'')
          else Inr \<lparr> config = cfg,
                     tavily_client = TavilyClient key,
                     summarizer_llm =
                       (case google_api_key cfg of
                          None \<Rightarrow> None
                        | Some g \<Rightarrow>
                            if enable_search_summarization cfg \<and> g \<noteq> []
                            then Some (ChatGoogleGenerativeAI ''gemini-2.0-flash-lite''
                                         [PFloat (Finite 3602879701896397 (- 55)), PInt 1000, PStr g])
                            else None) \<rparr>)"

text \<open>
  \<open>ServerClients.__init__\<close>: the dictionary literal is evaluated entry by entry, so the
  first \<open>int\<close> that raises ends the construction. The module builds the object when it is
  loaded, logs a failure and raises it again.
\<close>

definition ServerClients_init :: "environ \<Rightarrow> exn + server_clients" where
  "ServerClients_init env =
     (case py_int (getenv env ''MAX_RESULTS'' ''10'') of Inl e \<Rightarrow> Inl e | Inr mr \<Rightarrow>
      case py_int (getenv env ''MAX_CONTENT_SIZE'' ''10000'') of Inl e \<Rightarrow> Inl e | Inr mcs \<Rightarrow>
      case py_int (getenv env ''MAX_SCRAPE_LENGTH'' ''20000'') of Inl e \<Rightarrow> Inl e | Inr msl \<Rightarrow>
        initialize_clients
          \<lparr> google_api_key = env ''GOOGLE_API_KEY'',
            tavily_api_key = env ''TAVILY_API_KEY'',
            max_results = mr,
            search_depth = getenv env ''SEARCH_DEPTH'' ''basic'',
            max_content_size = mcs,
            max_scrape_length = msl,
            enable_search_summarization =
              (lower (getenv env ''ENABLE_SEARCH_SUMMARIZATION'' ''false'') = ''true'') \<rparr>)"

definition load_mcp_server :: "environ \<Rightarrow> exn + server_clients" where
  "load_mcp_server env = (case ServerClients_init env of Inl e \<Rightarrow> Inl e | Inr sc \<Rightarrow> Inr sc)"

subsection \<open>Formatting search results\<close>

definition nl :: string where
  "nl = [CHR 0x0A]"

fun str_nat :: "nat \<Rightarrow> string" where
  "str_nat n =
     (if n < 10 then [''0123456789'' ! n]
      else str_nat (n div 10) @ [''0123456789'' ! (n mod 10)])"

declare str_nat.simps [simp del]

type_synonym result = "string \<rightharpoonup> string"

definition formatted_result :: "nat \<Rightarrow> string \<Rightarrow> string \<Rightarrow> string \<Rightarrow> string" where
  "formatted_result i title url content =
     nl @ ''Result '' @ str_nat i @ '':'' @ nl
        @ ''Title: '' @ title @ nl
        @ ''URL: '' @ url @ nl
        @ ''Content: '' @ content @ nl
        @ ''---'' @ nl"

text \<open>The loop over \<open>enumerate(results, 1)\<close>, started at index \<open>i\<close>.\<close>

fun format_from :: "nat \<Rightarrow> result list \<Rightarrow> int \<Rightarrow> string list" where
  "format_from i [] max_size = []"
| "format_from i (r # rs) max_size =
     (let title = dict_get r ''title'' ''No title'';
          url = dict_get r ''url'' ''No URL'';
          content = dict_get r ''content'' ''No content available'';
          content = (if int (length content) > max_size
                     then slice_to max_size content @ ''...'' else content)
      in formatted_result i title url content # format_from (Suc i) rs max_size)"

definition format_search_results :: "result list \<Rightarrow> int \<Rightarrow> string list" where
  "format_search_results results max_size = format_from 1 results max_size"

definition create_summary_prompt :: "string \<Rightarrow> string \<Rightarrow> string" where
  "create_summary_prompt search_results original_query =
     nl @ ''You are a technical documentation summarizer. Your job is to extract and summarize only the most relevant information from search results.'' @ nl
     @ nl
     @ ''Original User Query: '' @ [CHR 0x22] @ original_query @ [CHR 0x22] @ nl
     @ nl
     @ ''Search Results to Summarize:'' @ nl
     @ search_results @ nl
     @ nl
     @ ''Instructions:'' @ nl
     @ ''1. Focus ONLY on information directly relevant to answering the user'' @ [CHR 0x27] @ ''s query'' @ nl
     @ ''2. Remove redundant content, boilerplate text, and navigation elements  '' @ nl
     @ ''3. Preserve specific technical details, code examples, and step-by-step instructions'' @ nl
     @ ''4. Maintain source URLs for attribution'' @ nl
     @ ''5. Keep the summary comprehensive but concise'' @ nl
     @ ''6. Format clearly for easy reading'' @ nl
     @ nl
     @ ''Relevant Summary:'' @ nl"

subsection \<open>The two tools\<close>

datatype document = Document (page_content: string)

text \<open>
  What the tools call outside the repository: the search provider (whose answer is the
  value under \<open>results\<close>, if any), the summarizer model, the browser loader and the tag
  extractor.
\<close>

record server_world =
  tavily_search ::
    "tavily_client \<Rightarrow> string \<Rightarrow> int \<Rightarrow> string \<Rightarrow> string list \<Rightarrow> exn + result list option"
  summarizer_invoke :: "llm \<Rightarrow> string \<Rightarrow> exn + string"
  chromium_load :: "string \<Rightarrow> exn + document list"
  transform_documents :: "document list \<Rightarrow> string list \<Rightarrow> exn + document list"

definition no_results_message :: string where
  "no_results_message =
     ''No results found. Try a different search query or check if domains are accessible.''"

text \<open>\<open>max_results or config["max_results"]\<close> and \<open>depth or config["search_depth"]\<close>.\<close>

definition final_max_results :: "server_config \<Rightarrow> int option \<Rightarrow> int" where
  "final_max_results cfg arg =
     (case arg of None \<Rightarrow> max_results cfg | Some n \<Rightarrow> if n = 0 then max_results cfg else n)"

definition final_depth :: "server_config \<Rightarrow> string option \<Rightarrow> string" where
  "final_depth cfg arg =
     (case arg of None \<Rightarrow> search_depth cfg | Some d \<Rightarrow> if d = [] then search_depth cfg else d)"

text \<open>
  The summarizing step: whatever it raises is caught and the unsummarized text is
  returned. The logged reduction divides by the length of the unsummarized text, which
  raises when that text is empty.
\<close>

definition summarize :: "server_world \<Rightarrow> server_clients \<Rightarrow> string \<Rightarrow> string \<Rightarrow> string" where
  "summarize w sc final_result query =
     (case summarizer_llm sc of
        None \<Rightarrow> final_result
      | Some l \<Rightarrow>
          if enable_search_summarization (config sc) then
            (case summarizer_invoke w l (create_summary_prompt final_result query) of
               Inl e \<Rightarrow> final_result
             | Inr summarized \<Rightarrow> if final_result = [] then final_result else summarized)
          else final_result)"

text \<open>The body of the \<open>try\<close> block of \<open>search_documentation\<close>.\<close>

definition search_try ::
  "server_world \<Rightarrow> server_clients \<Rightarrow> string \<Rightarrow> string list \<Rightarrow> int option \<Rightarrow> string option
     \<Rightarrow> exn + string" where
  "search_try w sc query sites arg_max_results arg_depth =
     (let n = final_max_results (config sc) arg_max_results;
          d = final_depth (config sc) arg_depth
      in case tavily_search w (tavily_client sc) query n d sites of
           Inl e \<Rightarrow> Inl e
         | Inr search_results \<Rightarrow>
             (case search_results of
                None \<Rightarrow> Inr no_results_message
              | Some rs \<Rightarrow>
                  if rs = [] then Inr no_results_message
                  else
                    (let formatted_results =
                           format_search_results (slice_to n rs) (max_content_size (config sc));
                         final_result = join nl formatted_results
                     in Inr (summarize w sc final_result query))))"

text \<open>The first character of the error text is U+274C, written here in UTF-8.\<close>

definition cross_mark :: string where
  "cross_mark = [CHR 0xE2, CHR 0x9D, CHR 0x8C]"

definition search_documentation ::
  "server_world \<Rightarrow> server_clients \<Rightarrow> string \<Rightarrow> string list \<Rightarrow> int option \<Rightarrow> string option
     \<Rightarrow> string" where
  "search_documentation w sc query sites arg_max_results arg_depth =
     (case search_try w sc query sites arg_max_results arg_depth of
        Inl e \<Rightarrow> cross_mark @ '' Search error: '' @ message e
      | Inr text \<Rightarrow> text)"

definition get_default_tags :: "string list" where
  "get_default_tags = [''p'', ''li'', ''div'', ''a'', ''span'', ''h1'', ''h2'', ''h3'', ''h4'', ''h5'', ''h6'']"

definition truncation_note :: string where
  "truncation_note = nl @ nl @ ''... (content truncated)''"

definition scraped_page :: "string \<Rightarrow> string \<Rightarrow> string" where
  "scraped_page url content =
     nl @ ''**Website Scraped:** '' @ url @ nl
        @ ''**Content Extracted:**'' @ nl
        @ nl
        @ content @ nl
        @ nl
        @ ''**Note:** Complete website content for comprehensive analysis.'' @ nl"

text \<open>The body of the \<open>try\<close> block of \<open>scrape_website\<close>.\<close>

definition scrape_try ::
  "server_world \<Rightarrow> server_clients \<Rightarrow> string \<Rightarrow> string list option \<Rightarrow> exn + string" where
  "scrape_try w sc url tags_to_extract =
     (let tags = (case tags_to_extract of None \<Rightarrow> get_default_tags | Some ts \<Rightarrow> ts)
      in case chromium_load w url of
           Inl e \<Rightarrow> Inl e
         | Inr html_docs \<Rightarrow>
             if html_docs = [] then Inr (''Failed to load content from '' @ url)
             else
               (case transform_documents w html_docs tags of
                  Inl e \<Rightarrow> Inl e
                | Inr docs_transformed \<Rightarrow>
                    (case docs_transformed of
                       [] \<Rightarrow> Inr (''No content extracted from '' @ url)
                     | doc # rest \<Rightarrow>
                         (let content = page_content doc;
                              content =
                                (if int (length content) > max_scrape_length (config sc)
                                 then slice_to (max_scrape_length (config sc)) content
                                        @ truncation_note
                                 else content)
                          in Inr (scraped_page url content)))))"

definition scrape_website ::
  "server_world \<Rightarrow> server_clients \<Rightarrow> string \<Rightarrow> string list option \<Rightarrow> string" where
  "scrape_website w sc url tags_to_extract =
     (case scrape_try w sc url tags_to_extract of
        Inl e \<Rightarrow> ''Web scraping error for '' @ url @ '': '' @ message e
      | Inr text \<Rightarrow> text)"

section \<open>The HTTP front door (main.py)\<close>

subsection \<open>Configuration from the environment\<close>

text \<open>
  \<open>get_env_with_fallback\<close>: the value is the variable's string, or the default itself when
  the variable is not set; the converter runs only on a value that differs from the
  default, and only \<open>ValueError\<close> and \<open>TypeError\<close> are caught.
\<close>

definition get_env_with_fallback ::
  "environ \<Rightarrow> string \<Rightarrow> pyval \<Rightarrow> (pyval \<Rightarrow> exn + pyval) option \<Rightarrow> exn + pyval" where
  "get_env_with_fallback env key dflt converter =
     (let v = (case env key of None \<Rightarrow> dflt | Some s \<Rightarrow> PStr s)
      in case converter of
           None \<Rightarrow> Inr v
         | Some conv \<Rightarrow>
             if v \<noteq> dflt then
               (case conv v of
                  Inl e \<Rightarrow> if kind e = ValueError \<or> kind e = TypeError then Inr dflt else Inl e
                | Inr c \<Rightarrow> Inr c)
             else Inr v)"

text \<open>The builtin \<open>int\<close> as a converter of any value; a float is cut towards zero.\<close>

definition int_conv :: "pyval \<Rightarrow> exn + pyval" where
  "int_conv v =
     (case v of
        PStr s \<Rightarrow> (case py_int s of Inl e \<Rightarrow> Inl e | Inr i \<Rightarrow> Inr (PInt i))
      | PInt i \<Rightarrow> Inr (PInt i)
      | PFloat f \<Rightarrow>
          (case f of
             Finite m e \<Rightarrow>
               Inr (PInt (if 0 \<le> e then m * 2 ^ nat e
                          else if 0 \<le> m then m div 2 ^ nat (- e)
                          else - ((- m) div 2 ^ nat (- e))))
           | Infinity b \<Rightarrow> Inl (Exn OverflowError ''cannot convert float infinity to integer'')
           | NaN \<Rightarrow> Inl (Exn ValueError ''cannot convert float NaN to integer''))
      | PNone \<Rightarrow>
          Inl (Exn TypeError
                 (''int() argument must be a string, a bytes-like object or a real number, not ''
                    @ repr_str ''NoneType'')))"

definition validate_client_config :: "environ \<Rightarrow> exn + string \<times> string" where
  "validate_client_config env =
     (let mcp_url = getenv env ''MCP_SERVER_URL'' ''http://127.0.0.1:8001/mcp''
      in case env ''GOOGLE_API_KEY'' of
           None \<Rightarrow> Inl (Exn ValueError ''GOOGLE_API_KEY environment variable is required for the client LLM'')
         | Some k \<Rightarrow>
             if k = [] \<or> k = ''your_google_api_key_here''
             then Inl (Exn ValueError ''GOOGLE_API_KEY environment variable is required for the client LLM'')
             else Inr (k, mcp_url))"

text \<open>
  \<open>build_config\<close>; the builtin \<open>float\<close> is a parameter. The default temperature is the
  double nearest to 0.1.
\<close>

definition build_config :: "(pyval \<Rightarrow> exn + pyval) \<Rightarrow> environ \<Rightarrow> exn + config" where
  "build_config float_conv env =
     (case validate_client_config env of Inl e \<Rightarrow> Inl e | Inr (k, mcp_url) \<Rightarrow>
      case get_env_with_fallback env ''LLM_TEMPERATURE''
             (PFloat (Finite 3602879701896397 (- 55))) (Some float_conv) of
        Inl e \<Rightarrow> Inl e | Inr temperature \<Rightarrow>
      case get_env_with_fallback env ''LLM_MAX_TOKENS'' (PInt 3000) (Some int_conv) of
        Inl e \<Rightarrow> Inl e | Inr max_tokens \<Rightarrow>
      case get_env_with_fallback env ''LLM_TIMEOUT'' (PInt 60) (Some int_conv) of
        Inl e \<Rightarrow> Inl e | Inr timeout \<Rightarrow>
      case get_env_with_fallback env ''REQUEST_TIMEOUT'' (PInt 30) (Some int_conv) of
        Inl e \<Rightarrow> Inl e | Inr request_timeout \<Rightarrow>
        Inr [''google_api_key'' \<mapsto> PStr k,
             ''llm_temperature'' \<mapsto> temperature,
             ''llm_max_tokens'' \<mapsto> max_tokens,
             ''llm_timeout'' \<mapsto> timeout,
             ''request_timeout'' \<mapsto> request_timeout,
             ''mcp_server_url'' \<mapsto> PStr mcp_url])"

subsection \<open>The session registry\<close>

text \<open>
  \<open>app.state\<close>: the attribute \<open>user_sessions\<close> is absent (\<open>None\<close>) until the lifespan
  handler has run, and is a dictionary from session tokens to agents afterwards.
\<close>

text \<open>The text of an \<open>HTTPException\<close> is its status code, a colon and its detail.\<close>

record app_state =
  user_sessions :: "(string \<rightharpoonup> agent) option"
  app_config :: config

definition get_or_create_agent ::
  "world \<Rightarrow> app_state \<Rightarrow> string \<Rightarrow> (exn + agent) \<times> app_state" where
  "get_or_create_agent w st session_id =
     (case user_sessions st of
        None \<Rightarrow> (Inl (Exn (HTTPException 500) ''500: Session store not initialized''), st)
      | Some sessions \<Rightarrow>
          (case sessions session_id of
             None \<Rightarrow>
               (case DomainQAAgent_init w ''sites_data.csv'' (Some (app_config st)) of
                  Inl e \<Rightarrow> (Inl e, st)
                | Inr a \<Rightarrow> (Inr a, st\<lparr>user_sessions := Some (sessions(session_id \<mapsto> a))\<rparr>))
           | Some a \<Rightarrow> (Inr a, st)))"

subsection \<open>Concrete agents and environments\<close>

definition df0 :: dataframe where
  "df0 = \<lparr> columns = [''site'', ''domain'', ''description''],
           rows = [[Some ''docs.langchain.com'', Some ''langchain'', Some ''LangChain docs'']] \<rparr>"

definition llm0 :: llm where
  "llm0 = ChatGoogleGenerativeAI ''gemini-2.0-flash'' [PStr ''key'', PFloat (Finite 3602879701896397 (- 55)), PInt 3000, PInt 60]"

definition turns6 :: "message list" where
  "turns6 = [HumanMessage ''q1'', AIMessage ''a1'', HumanMessage ''q2'', AIMessage ''a2'',
             HumanMessage ''q3'', AIMessage ''a3'']"

definition agent0 :: agent where
  "agent0 = \<lparr> agent_config = Map.empty, mcp_server_url = PStr ''http://127.0.0.1:8001/mcp'',
              sites_df = df0, agent_llm = llm0, chat_history = turns6,
              mcp_client = None, tools = [], agent_executor = None \<rparr>"

definition agent1 :: agent where
  "agent1 = agent0\<lparr> mcp_client := Some (MultiServerMCPClient (PStr ''http://127.0.0.1:8001/mcp'')),
                    tools := [''search_documentation'', ''scrape_website''],
                    agent_executor :=
                      Some (AgentExecutor llm0 [''search_documentation'', ''scrape_website'']) \<rparr>"

definition world_down :: world where
  "world_down = \<lparr> read_csv = (\<lambda>p. Inr df0),
                  new_llm = (\<lambda>m args. Inr (ChatGoogleGenerativeAI m args)),
                  new_mcp_client = (\<lambda>u. Inr (MultiServerMCPClient u)),
                  get_tools = (\<lambda>c. Inl (Exn OtherError ''All connection attempts failed'')),
                  new_executor = (\<lambda>df l ts. Inr (AgentExecutor l ts)),
                  ainvoke = (\<lambda>ex ai. Inr Map.empty) \<rparr>"

definition world_up :: world where
  "world_up = \<lparr> read_csv = (\<lambda>p. Inr df0),
                new_llm = (\<lambda>m args. Inr (ChatGoogleGenerativeAI m args)),
                new_mcp_client = (\<lambda>u. Inr (MultiServerMCPClient u)),
                get_tools = (\<lambda>c. Inr [''search_documentation'', ''scrape_website'']),
                new_executor = (\<lambda>df l ts. Inr (AgentExecutor l ts)),
                ainvoke = (\<lambda>ex ai. Inr Map.empty) \<rparr>"

subsection \<open>Concrete configurations, pages and search answers\<close>

definition df_null :: dataframe where
  "df_null = \<lparr> columns = [''site'', ''domain'', ''description''],
               rows = [[Some ''docs.python.org'', None, Some ''Python docs'']] \<rparr>"

definition read_null :: "string \<Rightarrow> exn + dataframe" where
  "read_null p = Inr df_null"

definition df_short :: dataframe where
  "df_short = \<lparr> columns = [''site'', ''description''],
                rows = [[Some ''docs.python.org'', Some ''Python docs'']] \<rparr>"

definition read_short :: "string \<Rightarrow> exn + dataframe" where
  "read_short p = Inr df_short"

definition env_bad_number :: environ where
  "env_bad_number = [''TAVILY_API_KEY'' \<mapsto> ''tvly-key'', ''MAX_RESULTS'' \<mapsto> ''abc'']"

definition env_front_bad_number :: environ where
  "env_front_bad_number = [''GOOGLE_API_KEY'' \<mapsto> ''g-key'', ''LLM_MAX_TOKENS'' \<mapsto> ''abc'']"

definition config0 :: config where
  "config0 = [''google_api_key'' \<mapsto> PStr ''key'',
              ''llm_temperature'' \<mapsto> PFloat (Finite 3602879701896397 (- 55)),
              ''llm_max_tokens'' \<mapsto> PInt 3000,
              ''llm_timeout'' \<mapsto> PInt 60,
              ''request_timeout'' \<mapsto> PInt 30,
              ''mcp_server_url'' \<mapsto> PStr ''http://127.0.0.1:8001/mcp'']"

definition state0 :: app_state where
  "state0 = \<lparr> user_sessions = Some [''s1'' \<mapsto> agent0], app_config = config0 \<rparr>"

definition clients0 :: server_clients where
  "clients0 = \<lparr> config = \<lparr> google_api_key = None, tavily_api_key = Some ''tvly-key'',
                            max_results = 2, search_depth = ''basic'', max_content_size = 5,
                            max_scrape_length = 4, enable_search_summarization = False \<rparr>,
                 tavily_client = TavilyClient ''tvly-key'',
                 summarizer_llm = None \<rparr>"

definition result_abcdef :: result where
  "result_abcdef = [''content'' \<mapsto> ''abcdef'']"

definition results3 :: "result list" where
  "results3 = [[''title'' \<mapsto> ''T1'', ''url'' \<mapsto> ''u1'', ''content'' \<mapsto> ''abcdefgh''],
               [''title'' \<mapsto> ''T2'', ''url'' \<mapsto> ''u2'', ''content'' \<mapsto> ''abcde''],
               [''title'' \<mapsto> ''T3'', ''url'' \<mapsto> ''u3'', ''content'' \<mapsto> ''xyz'']]"

definition server_found :: server_world where
  "server_found = \<lparr> tavily_search = (\<lambda>c q n d s. Inr (Some results3)),
                     summarizer_invoke = (\<lambda>l p. Inr ''summary''),
                     chromium_load = (\<lambda>u. Inr [Document ''<p>abcdefgh</p>'']),
                     transform_documents = (\<lambda>ds ts. Inr [Document ''abcdefgh'']) \<rparr>"

definition server_short :: server_world where
  "server_short = \<lparr> tavily_search = (\<lambda>c q n d s. Inr (Some results3)),
                     summarizer_invoke = (\<lambda>l p. Inr ''summary''),
                     chromium_load = (\<lambda>u. Inr [Document ''<p>abc</p>'']),
                     transform_documents = (\<lambda>ds ts. Inr [Document ''abc'']) \<rparr>"

definition server_empty :: server_world where
  "server_empty = \<lparr> tavily_search = (\<lambda>c q n d s. Inr (Some [])),
                     summarizer_invoke = (\<lambda>l p. Inr ''summary''),
                     chromium_load = (\<lambda>u. Inr []),
                     transform_documents = (\<lambda>ds ts. Inr []) \<rparr>"

definition server_unreachable :: server_world where
  "server_unreachable = \<lparr> tavily_search = (\<lambda>c q n d s. Inl (Exn OtherError ''timeout'')),
                           summarizer_invoke = (\<lambda>l p. Inl (Exn OtherError ''timeout'')),
                           chromium_load = (\<lambda>u. Inl (Exn OtherError ''net::ERR_NAME_NOT_RESOLVED'')),
                           transform_documents = (\<lambda>ds ts. Inr []) \<rparr>"

section \<open>Properties of the agent\<close>

lemma initialize_mcp_client_history:
  "chat_history (snd (initialize_mcp_client w a)) = chat_history a"
  by (simp add: initialize_mcp_client_def Let_def split: sum.splits)

lemma slice_from_last:
  "0 < n \<Longrightarrow> slice_from (- int n) xs = drop (length xs - n) xs"
  by (simp add: slice_from_def nat_diff_distrib')

lemma make_agent_input_history:
  "input_chat_history (make_agent_input a u) = drop (length (chat_history a) - 5) (chat_history a)"
  using slice_from_last [of 5 "chat_history a"] by (simp add: make_agent_input_def)

lemma make_agent_input_cong:
  "chat_history a1 = chat_history a \<Longrightarrow> make_agent_input a1 u = make_agent_input a u"
  by (simp add: make_agent_input_def)

lemma achat_try_error_history:
  assumes "achat_try w a u = (Inl e, a1)"
  shows "chat_history a1 = chat_history a"
proof -
  obtain r b where init: "initialize_mcp_client w a = (r, b)"
    by (cases "initialize_mcp_client w a")
  have hb: "chat_history b = chat_history a"
    using initialize_mcp_client_history [of w a] init by simp
  from assms init have "a1 = b"
    by (auto simp: achat_try_def Let_def split: sum.splits option.splits)
  with hb show ?thesis by simp
qed

lemma achat_try_success:
  assumes "achat_try w a u = (Inr answer, a')"
  shows "\<exists>b ex resp. initialize_mcp_client w a = (Inr (), b) \<and> agent_executor b = Some ex
           \<and> ainvoke w ex (make_agent_input a u) = Inr resp
           \<and> answer = dict_get resp ''output'' fallback_answer
           \<and> a' = b\<lparr>chat_history := chat_history a @ [HumanMessage u, AIMessage answer]\<rparr>"
proof -
  obtain r b where init: "initialize_mcp_client w a = (r, b)"
    by (cases "initialize_mcp_client w a")
  have hb: "chat_history b = chat_history a"
    using initialize_mcp_client_history [of w a] init by simp
  have inp: "make_agent_input b u = make_agent_input a u"
    using hb by (rule make_agent_input_cong)
  from assms init show ?thesis
    by (auto simp: achat_try_def Let_def inp hb split: sum.splits option.splits)
qed

subsection \<open>Claims about the agent\<close>

text \<open>
  C3. Whenever the body of \<open>achat\<close> raises an exception (while the MCP client is set up,
  in the reasoning loop, or anywhere else inside the \<open>try\<close> block), \<open>achat\<close> returns the
  text \<open>Error: \<close> followed by the exception's text instead of raising, and the stored
  conversation history is the one before the call.
\<close>

theorem achat_exception_is_error_text:
  assumes "achat_try w a user_input = (Inl e, a1)"
  shows "fst (achat w a user_input) = ''Error: '' @ message e
         \<and> chat_history (snd (achat w a user_input)) = chat_history a"
  using assms achat_try_error_history [OF assms] by (simp add: achat_def)

theorem achat_exception_is_error_text_witness:
  "achat_try world_down agent0 ''hi''
     = (Inl (Exn OtherError ''All connection attempts failed''),
        agent0\<lparr>mcp_client := Some (MultiServerMCPClient (PStr ''http://127.0.0.1:8001/mcp''))\<rparr>)
   \<and> fst (achat world_down agent0 ''hi'') = ''Error: All connection attempts failed''
   \<and> chat_history (snd (achat world_down agent0 ''hi'')) = turns6"
proof -
  have h: "achat_try world_down agent0 ''hi''
     = (Inl (Exn OtherError ''All connection attempts failed''),
        agent0\<lparr>mcp_client := Some (MultiServerMCPClient (PStr ''http://127.0.0.1:8001/mcp''))\<rparr>)"
    by (simp add: achat_try_def initialize_mcp_client_def world_down_def agent0_def)
  from achat_exception_is_error_text [OF h] h show ?thesis
    by (simp add: agent0_def)
qed

text \<open>
  C4. Once the MCP client is set up, a chat call hands the reasoning loop the user input
  together with the last five messages of the stored history (\<open>drop\<close> with the truncated
  difference keeps the whole history when it has fewer than five). When the loop
  returns, the stored history is the full earlier history extended at its end by the user
  message and the assistant message with the answer, also when the answer is the fallback
  text taken because the loop's result has no \<open>output\<close> entry. When the loop raises, the
  call returns the error text.
\<close>

theorem achat_context_and_history:
  assumes "initialize_mcp_client w a = (Inr (), a1)" and "agent_executor a1 = Some ex"
  shows "chat_history a1 = chat_history a
         \<and> (\<forall>resp. ainvoke w ex \<lparr> input = user_input,
                                  input_chat_history =
                                    drop (length (chat_history a) - 5) (chat_history a) \<rparr>
                       = Inr resp \<longrightarrow>
                achat w a user_input
                  = (dict_get resp ''output'' fallback_answer,
                     a1\<lparr>chat_history :=
                          chat_history a @ [HumanMessage user_input,
                                            AIMessage (dict_get resp ''output'' fallback_answer)]\<rparr>))
         \<and> (\<forall>e. ainvoke w ex \<lparr> input = user_input,
                               input_chat_history =
                                 drop (length (chat_history a) - 5) (chat_history a) \<rparr>
                       = Inl e \<longrightarrow>
                achat w a user_input = (''Error: '' @ message e, a1))"
proof -
  have h: "chat_history a1 = chat_history a"
    using initialize_mcp_client_history [of w a] assms(1) by simp
  have "make_agent_input a1 user_input
          = \<lparr> input = user_input,
              input_chat_history = drop (length (chat_history a) - 5) (chat_history a) \<rparr>"
    using make_agent_input_history [of a1 user_input] h by (simp add: make_agent_input_def)
  with assms h show ?thesis
    by (simp add: achat_def achat_try_def Let_def dict_get_def)
qed

theorem achat_context_and_history_witness:
  "initialize_mcp_client world_up agent0 = (Inr (), agent1)
   \<and> agent_executor agent1 = Some (AgentExecutor llm0 [''search_documentation'', ''scrape_website''])
   \<and> ainvoke world_up (AgentExecutor llm0 [''search_documentation'', ''scrape_website''])
         \<lparr> input = ''q4'',
           input_chat_history = [AIMessage ''a1'', HumanMessage ''q2'', AIMessage ''a2'',
                                 HumanMessage ''q3'', AIMessage ''a3''] \<rparr> = Inr Map.empty
   \<and> achat world_up agent0 ''q4''
       = (fallback_answer,
          agent1\<lparr>chat_history := turns6 @ [HumanMessage ''q4'', AIMessage fallback_answer]\<rparr>)"
proof -
  have i: "initialize_mcp_client world_up agent0 = (Inr (), agent1)"
    by (simp add: initialize_mcp_client_def world_up_def agent0_def agent1_def)
  have x: "agent_executor agent1
             = Some (AgentExecutor llm0 [''search_documentation'', ''scrape_website''])"
    by (simp add: agent1_def)
  have c: "drop (length (chat_history agent0) - 5) (chat_history agent0)
             = [AIMessage ''a1'', HumanMessage ''q2'', AIMessage ''a2'',
                HumanMessage ''q3'', AIMessage ''a3'']"
    by (simp add: agent0_def turns6_def)
  have r: "ainvoke world_up (AgentExecutor llm0 [''search_documentation'', ''scrape_website''])
             \<lparr> input = ''q4'',
               input_chat_history = [AIMessage ''a1'', HumanMessage ''q2'', AIMessage ''a2'',
                                     HumanMessage ''q3'', AIMessage ''a3''] \<rparr> = Inr Map.empty"
    by (simp add: world_up_def)
  have t: "chat_history agent0 = turns6"
    by (simp add: agent0_def)
  from achat_context_and_history [OF i x, of "''q4''"] c r t i x show ?thesis
    by (simp add: dict_get_def)
qed

text \<open>
  C8. Resetting the memory twice gives the same agent as resetting it once; after a reset
  the stored history is empty, and the context that the next chat call builds for the
  reasoning loop has no earlier message.
\<close>

theorem reset_memory_idempotent:
  "reset_memory (reset_memory a) = reset_memory a
   \<and> chat_history (reset_memory a) = []
   \<and> make_agent_input (snd (initialize_mcp_client w (reset_memory a))) user_input
       = \<lparr> input = user_input, input_chat_history = [] \<rparr>"
  using initialize_mcp_client_history [of w "reset_memory a"]
  by (simp add: reset_memory_def make_agent_input_def)

section \<open>Properties of the tool server\<close>

lemma slice_to_nonneg: "0 \<le> j \<Longrightarrow> slice_to j xs = take (nat j) xs"
  by (simp add: slice_to_def)

lemma slice_to_prefix: "\<exists>k. slice_to j xs = take k xs"
  by (auto simp: slice_to_def)

lemma format_from_length: "length (format_from i rs m) = length rs"
  by (induction rs arbitrary: i) (simp_all add: Let_def)

lemma format_from_nth:
  "k < length rs \<Longrightarrow>
     format_from i rs m ! k =
       formatted_result (i + k)
         (dict_get (rs ! k) ''title'' ''No title'')
         (dict_get (rs ! k) ''url'' ''No URL'')
         (if int (length (dict_get (rs ! k) ''content'' ''No content available'')) > m
          then slice_to m (dict_get (rs ! k) ''content'' ''No content available'') @ ''...''
          else dict_get (rs ! k) ''content'' ''No content available'')"
proof (induction rs arbitrary: i k)
  case Nil
  then show ?case by simp
next
  case (Cons r rs)
  show ?case
  proof (cases k)
    case 0
    then show ?thesis by (simp add: Let_def)
  next
    case (Suc j)
    with Cons.prems have "j < length rs" by simp
    from Cons.IH [OF this, of "Suc i"] Suc show ?thesis by (simp add: Let_def)
  qed
qed

lemma summarize_no_llm: "summarizer_llm sc = None \<Longrightarrow> summarize w sc t q = t"
  by (simp add: summarize_def)

lemma search_try_found:
  assumes "tavily_search w (tavily_client sc) query (final_max_results (config sc) arg_mr)
             (final_depth (config sc) arg_depth) sites = Inr (Some rs)"
    and "rs \<noteq> []"
  shows "search_try w sc query sites arg_mr arg_depth =
           Inr (summarize w sc
                  (join nl (format_search_results
                              (slice_to (final_max_results (config sc) arg_mr) rs)
                              (max_content_size (config sc)))) query)"
  using assms by (simp add: search_try_def Let_def)

lemma scrape_content_prefix:
  "(if int (length c) > m then slice_to m c @ truncation_note else c) = c
   \<or> (\<exists>k. (if int (length c) > m then slice_to m c @ truncation_note else c)
            = take k c @ truncation_note)"
  using slice_to_prefix [of m c] by auto

lemma sublist_scraped_page: "sublist url (scraped_page url c)"
proof -
  have "scraped_page url c =
          (nl @ ''**Website Scraped:** '') @ url
            @ (nl @ ''**Content Extracted:**'' @ nl @ nl @ c @ nl @ nl
                 @ ''**Note:** Complete website content for comprehensive analysis.'' @ nl)"
    by (simp add: scraped_page_def)
  then show ?thesis
    by (metis sublist_appendI)
qed

lemma sublist_after_prefix: "sublist url (p @ url @ s)"
  by (rule sublist_appendI)

lemma sublist_at_end: "sublist url (p @ url)"
  using sublist_appendI [of url p "[]"] by simp

lemma scrape_website_cases:
  "(\<exists>e. scrape_website w sc url tags = ''Web scraping error for '' @ url @ '': '' @ message e)
   \<or> scrape_website w sc url tags = ''Failed to load content from '' @ url
   \<or> scrape_website w sc url tags = ''No content extracted from '' @ url
   \<or> (\<exists>c. scrape_website w sc url tags = scraped_page url c)"
  by (auto simp: scrape_website_def scrape_try_def Let_def split: sum.splits list.splits)

lemma scrape_website_contains_url: "sublist url (scrape_website w sc url tags)"
proof -
  consider e where "scrape_website w sc url tags = ''Web scraping error for '' @ url @ '': '' @ message e"
    | "scrape_website w sc url tags = ''Failed to load content from '' @ url"
    | "scrape_website w sc url tags = ''No content extracted from '' @ url"
    | c where "scrape_website w sc url tags = scraped_page url c"
    using scrape_website_cases [of w sc url tags] by blast
  then show ?thesis
  proof cases
    case 1
    then show ?thesis by (simp only: sublist_after_prefix)
  next
    case 2
    then show ?thesis by (simp only: sublist_at_end)
  next
    case 3
    then show ?thesis by (simp only: sublist_at_end)
  next
    case 4
    then show ?thesis by (simp only: sublist_scraped_page)
  qed
qed

section \<open>Properties of the front door\<close>

lemma py_int_raises_ValueError: "py_int s = Inl e \<Longrightarrow> kind e = ValueError"
  by (auto simp: py_int_def Let_def invalid_literal_def split: option.splits)

lemma int_conv_str_raises_ValueError: "int_conv (PStr s) = Inl e \<Longrightarrow> kind e = ValueError"
  by (auto simp: int_conv_def dest: py_int_raises_ValueError split: sum.splits)

lemma get_env_with_fallback_invalid:
  assumes "env key = Some s" and "conv (PStr s) = Inl e"
    and "kind e = ValueError \<or> kind e = TypeError"
  shows "get_env_with_fallback env key dflt (Some conv) = Inr dflt"
  using assms by (auto simp: get_env_with_fallback_def Let_def)

lemma get_env_with_fallback_int_total:
  "\<exists>v. get_env_with_fallback env key (PInt d) (Some int_conv) = Inr v"
  by (auto simp: get_env_with_fallback_def Let_def
        dest: int_conv_str_raises_ValueError split: option.splits sum.splits)

lemma build_config_numbers_never_fail:
  assumes "validate_client_config env = Inr p"
    and "\<And>s e. float_conv (PStr s) = Inl e \<Longrightarrow> kind e = ValueError"
  shows "\<exists>c. build_config float_conv env = Inr c"
proof -
  obtain k u where p: "p = (k, u)" by (cases p)
  have t: "\<exists>v. get_env_with_fallback env ''LLM_TEMPERATURE''
                 (PFloat (Finite 3602879701896397 (- 55))) (Some float_conv) = Inr v"
    using assms(2)
    by (auto simp: get_env_with_fallback_def Let_def split: option.splits sum.splits)
  then obtain v1 where v1: "get_env_with_fallback env ''LLM_TEMPERATURE''
                 (PFloat (Finite 3602879701896397 (- 55))) (Some float_conv) = Inr v1" ..
  obtain v2 where v2: "get_env_with_fallback env ''LLM_MAX_TOKENS'' (PInt 3000) (Some int_conv) = Inr v2"
    using get_env_with_fallback_int_total by blast
  obtain v3 where v3: "get_env_with_fallback env ''LLM_TIMEOUT'' (PInt 60) (Some int_conv) = Inr v3"
    using get_env_with_fallback_int_total by blast
  obtain v4 where v4: "get_env_with_fallback env ''REQUEST_TIMEOUT'' (PInt 30) (Some int_conv) = Inr v4"
    using get_env_with_fallback_int_total by blast
  show ?thesis
    using assms(1) p v1 v2 v3 v4 by (simp add: build_config_def)
qed

section \<open>Claims about the tool server and the front door\<close>

text \<open>
  C1. An environment value that does not parse as a number should give the default and
  never stop a program from starting. The front door behaves so: \<open>get_env_with_fallback\<close>
  returns the default 3000 for \<open>LLM_MAX_TOKENS=abc\<close>. The tool server does not: with
  \<open>MAX_RESULTS=abc\<close> (and the Tavily key set) the \<open>int\<close> call in the constructor of
  \<open>ServerClients\<close> raises \<open>ValueError\<close>, nothing catches it, and loading the module fails.
\<close>

theorem server_invalid_number_stops_startup:
  "load_mcp_server env_bad_number
     = Inl (Exn ValueError
              (''invalid literal for int() with base 10: '' @ [CHR 0x27] @ ''abc'' @ [CHR 0x27]))
   \<and> get_env_with_fallback env_front_bad_number ''LLM_MAX_TOKENS'' (PInt 3000) (Some int_conv)
       = Inr (PInt 3000)"
  by (simp add: load_mcp_server_def ServerClients_init_def env_bad_number_def
        env_front_bad_number_def getenv_def
        py_int_def strip_def is_space_def unsigned_value_def is_digit_def invalid_literal_def
        repr_str_def repr_char_def printable_def Let_def
        get_env_with_fallback_def int_conv_def)

text \<open>
  C2, as first stated (loading fails whenever a row has a null site, domain or
  description), does not hold: a catalog whose only row has no domain is loaded without
  an error.
\<close>

theorem load_sites_data_null_counterexample:
  "load_sites_data read_null ''sites_data.csv'' = Inr df_null
   \<and> columns df_null = [''site'', ''domain'', ''description'']
   \<and> rows df_null = [[Some ''docs.python.org'', None, Some ''Python docs'']]"
  by (simp add: load_sites_data_def read_null_def df_null_def required_columns_def)

text \<open>
  C2, amended. Once the file has been read, loading the catalog fails with a
  \<open>ValueError\<close> exactly when one of the columns site, domain, description is not among
  the file's columns; otherwise the data frame is returned as it was read, whatever its
  cells hold. (An error of the read itself is passed on.)
\<close>

theorem load_sites_data_checks_columns:
  assumes "rd path = Inr df"
  shows "(set required_columns \<subseteq> set (columns df) \<longrightarrow> load_sites_data rd path = Inr df)
         \<and> (\<not> set required_columns \<subseteq> set (columns df) \<longrightarrow>
              (\<exists>e. load_sites_data rd path = Inl e \<and> kind e = ValueError))"
proof -
  have "filter (\<lambda>col. col \<notin> set (columns df)) required_columns = []
          \<longleftrightarrow> set required_columns \<subseteq> set (columns df)"
    by (auto simp: filter_empty_conv)
  with assms show ?thesis
    by (simp add: load_sites_data_def Let_def)
qed

theorem load_sites_data_checks_columns_witness:
  "read_null ''sites_data.csv'' = Inr df_null
   \<and> set required_columns \<subseteq> set (columns df_null)
   \<and> load_sites_data read_null ''sites_data.csv'' = Inr df_null
   \<and> read_short ''sites_data.csv'' = Inr df_short
   \<and> \<not> set required_columns \<subseteq> set (columns df_short)
   \<and> (\<exists>e. load_sites_data read_short ''sites_data.csv'' = Inl e \<and> kind e = ValueError)"
proof -
  have r1: "read_null ''sites_data.csv'' = Inr df_null"
    by (simp add: read_null_def)
  have r2: "read_short ''sites_data.csv'' = Inr df_short"
    by (simp add: read_short_def)
  have c1: "set required_columns \<subseteq> set (columns df_null)"
    by (simp add: required_columns_def df_null_def)
  have c2: "\<not> set required_columns \<subseteq> set (columns df_short)"
    by (simp add: required_columns_def df_short_def)
  from load_sites_data_checks_columns [of read_null "''sites_data.csv''" df_null, OF r1]
    load_sites_data_checks_columns [of read_short "''sites_data.csv''" df_short, OF r2]
    r1 r2 c1 c2
  show ?thesis by blast
qed

text \<open>
  C5, as first stated (content longer than the configured size is cut to exactly that
  size), does not hold for a negative configured size: with the limit \<open>-2\<close> the content
  \<open>abcdef\<close> is longer than the limit and is cut to its first four characters.
\<close>

theorem format_search_results_negative_counterexample:
  "int (length ''abcdef'') > - 2
   \<and> format_search_results [result_abcdef] (- 2)
       = [formatted_result 1 ''No title'' ''No URL'' ''abcd...'']
   \<and> int (length ''abcd'') \<noteq> - 2"
  by (simp add: format_search_results_def result_abcdef_def dict_get_def slice_to_def Let_def)

text \<open>
  C5, amended. When the configured maximum content size and the effective maximum number
  of results are not negative and the provider answers with a non-empty list: only the
  first \<open>max_results\<close> results are formatted, in order and numbered from 1; the section
  of a result whose content is longer than the maximum content size holds the first
  \<open>max_content_size\<close> characters of the content followed by \<open>...\<close>, the section of any
  other result holds its content unchanged; and the sections joined by newlines are what
  the tool returns, after the optional summarizing step.
\<close>

theorem search_results_truncated_and_capped:
  assumes "0 \<le> max_content_size (config sc)"
    and "0 \<le> final_max_results (config sc) arg_mr"
    and "tavily_search w (tavily_client sc) query (final_max_results (config sc) arg_mr)
           (final_depth (config sc) arg_depth) sites = Inr (Some rs)"
    and "rs \<noteq> []"
  shows "\<exists>sections.
           search_documentation w sc query sites arg_mr arg_depth
             = summarize w sc (join nl sections) query
           \<and> (summarizer_llm sc = None \<longrightarrow>
                search_documentation w sc query sites arg_mr arg_depth = join nl sections)
           \<and> length sections = min (nat (final_max_results (config sc) arg_mr)) (length rs)
           \<and> (\<forall>k < length sections.
                sections ! k =
                  formatted_result (Suc k)
                    (dict_get (rs ! k) ''title'' ''No title'')
                    (dict_get (rs ! k) ''url'' ''No URL'')
                    (if length (dict_get (rs ! k) ''content'' ''No content available'')
                          > nat (max_content_size (config sc))
                     then take (nat (max_content_size (config sc)))
                            (dict_get (rs ! k) ''content'' ''No content available'') @ ''...''
                     else dict_get (rs ! k) ''content'' ''No content available''))"
proof -
  let ?n = "final_max_results (config sc) arg_mr"
  let ?m = "max_content_size (config sc)"
  let ?kept = "take (nat ?n) rs"
  let ?sections = "format_search_results (slice_to ?n rs) ?m"
  have kept: "slice_to ?n rs = ?kept"
    using assms(2) by (rule slice_to_nonneg)
  have out: "search_documentation w sc query sites arg_mr arg_depth
               = summarize w sc (join nl ?sections) query"
    using search_try_found [OF assms(3,4)] by (simp add: search_documentation_def)
  have len: "length ?sections = min (nat ?n) (length rs)"
    by (simp add: kept format_search_results_def format_from_length min.commute)
  have nth: "?sections ! k =
                  formatted_result (Suc k)
                    (dict_get (rs ! k) ''title'' ''No title'')
                    (dict_get (rs ! k) ''url'' ''No URL'')
                    (if length (dict_get (rs ! k) ''content'' ''No content available'') > nat ?m
                     then take (nat ?m)
                            (dict_get (rs ! k) ''content'' ''No content available'') @ ''...''
                     else dict_get (rs ! k) ''content'' ''No content available'')"
    if "k < length ?sections" for k
  proof -
    from that len have k: "k < length ?kept" by simp
    have cmp: "(?m < int (length c)) = (nat ?m < length c)" for c :: string
      using assms(1) by auto
    from k have "?kept ! k = rs ! k" by simp
    with format_from_nth [OF k, of 1 ?m] show ?thesis
      by (simp add: kept format_search_results_def slice_to_nonneg [OF assms(1)] cmp)
  qed
  from out len nth show ?thesis
    by (intro exI [of _ ?sections]) (simp add: summarize_no_llm)
qed

theorem search_results_truncated_and_capped_witness:
  "0 \<le> max_content_size (config clients0)
   \<and> 0 \<le> final_max_results (config clients0) None
   \<and> tavily_search server_found (tavily_client clients0) ''q'' (final_max_results (config clients0) None)
        (final_depth (config clients0) None) [''docs.python.org''] = Inr (Some results3)
   \<and> results3 \<noteq> []
   \<and> search_documentation server_found clients0 ''q'' [''docs.python.org''] None None
        = join nl [formatted_result 1 ''T1'' ''u1'' ''abcde...'',
                   formatted_result 2 ''T2'' ''u2'' ''abcde'']"
proof -
  have h1: "0 \<le> max_content_size (config clients0)"
    by (simp add: clients0_def)
  have h2: "0 \<le> final_max_results (config clients0) None"
    by (simp add: clients0_def final_max_results_def)
  have h3: "tavily_search server_found (tavily_client clients0) ''q''
              (final_max_results (config clients0) None)
              (final_depth (config clients0) None) [''docs.python.org''] = Inr (Some results3)"
    by (simp add: server_found_def)
  have h4: "results3 \<noteq> []"
    by (simp add: results3_def)
  have none: "summarizer_llm clients0 = None"
    by (simp add: clients0_def)
  from search_results_truncated_and_capped [OF h1 h2 h3 h4] none
  obtain sections where
    s: "search_documentation server_found clients0 ''q'' [''docs.python.org''] None None
          = join nl sections"
       "length sections = min (nat (final_max_results (config clients0) None)) (length results3)"
       "\<forall>k < length sections.
                sections ! k =
                  formatted_result (Suc k)
                    (dict_get (results3 ! k) ''title'' ''No title'')
                    (dict_get (results3 ! k) ''url'' ''No URL'')
                    (if length (dict_get (results3 ! k) ''content'' ''No content available'')
                          > nat (max_content_size (config clients0))
                     then take (nat (max_content_size (config clients0)))
                            (dict_get (results3 ! k) ''content'' ''No content available'') @ ''...''
                     else dict_get (results3 ! k) ''content'' ''No content available'')"
    by blast
  have l: "length sections = 2"
    using s(2) by (simp add: clients0_def final_max_results_def results3_def)
  have k0: "0 < length sections" and k1: "1 < length sections"
    using l by simp_all
  have s0: "sections ! 0 = formatted_result 1 ''T1'' ''u1'' ''abcde...''"
    using s(3) [rule_format, OF k0] by (simp add: clients0_def results3_def dict_get_def)
  have s1: "sections ! 1 = formatted_result 2 ''T2'' ''u2'' ''abcde''"
    using s(3) [rule_format, OF k1]
    by (simp add: clients0_def results3_def dict_get_def numeral_2_eq_2)
  have "sections = [sections ! 0, sections ! 1]"
    using l by (cases sections; cases "tl sections") auto
  with s0 s1 have "sections = [formatted_result 1 ''T1'' ''u1'' ''abcde...'',
                               formatted_result 2 ''T2'' ''u2'' ''abcde'']"
    by simp
  with s(1) h1 h2 h3 h4 show ?thesis by simp
qed

text \<open>
  C6. \<open>scrape_website\<close> returns a text for every URL and tag list, whatever the loader and
  the extractor do. When the loader or the extractor raises, the text is the scraping
  error message with the URL and the exception's text; when the loader returns no
  document or the extractor returns none, it is the fixed message ending in the URL. When
  the extractor returns a document, the text is the fixed page template (the URL header,
  the content, the trailing note) around the content of the first document: the content
  itself when it is no longer than the configured \<open>max_scrape_length\<close>, and otherwise the
  slice of the content up to \<open>max_scrape_length\<close> (a negative bound counted from the end)
  followed by the truncation note. In every case the URL occurs in the returned text.
\<close>

theorem scrape_website_always_text:
  "(\<forall>e. chromium_load w url = Inl e \<longrightarrow>
        scrape_website w sc url tags = ''Web scraping error for '' @ url @ '': '' @ message e)
   \<and> (chromium_load w url = Inr [] \<longrightarrow>
        scrape_website w sc url tags = ''Failed to load content from '' @ url)
   \<and> (\<forall>docs. chromium_load w url = Inr docs \<and> docs \<noteq> [] \<longrightarrow>
        (\<forall>e. transform_documents w docs
                (case tags of None \<Rightarrow> get_default_tags | Some ts \<Rightarrow> ts) = Inl e \<longrightarrow>
             scrape_website w sc url tags
               = ''Web scraping error for '' @ url @ '': '' @ message e)
        \<and> (transform_documents w docs
                (case tags of None \<Rightarrow> get_default_tags | Some ts \<Rightarrow> ts) = Inr [] \<longrightarrow>
             scrape_website w sc url tags = ''No content extracted from '' @ url)
        \<and> (\<forall>doc rest. transform_documents w docs
                (case tags of None \<Rightarrow> get_default_tags | Some ts \<Rightarrow> ts) = Inr (doc # rest) \<longrightarrow>
             scrape_website w sc url tags
               = [CHR 0x0A] @ ''**Website Scraped:** '' @ url @ [CHR 0x0A]
                 @ ''**Content Extracted:**'' @ [CHR 0x0A, CHR 0x0A]
                 @ (if max_scrape_length (config sc) < int (length (page_content doc))
                    then take (nat (if max_scrape_length (config sc) < 0
                                    then int (length (page_content doc))
                                           + max_scrape_length (config sc)
                                    else max_scrape_length (config sc)))
                           (page_content doc)
                         @ [CHR 0x0A, CHR 0x0A] @ ''... (content truncated)''
                    else page_content doc)
                 @ [CHR 0x0A, CHR 0x0A]
                 @ ''**Note:** Complete website content for comprehensive analysis.''
                 @ [CHR 0x0A]))
   \<and> sublist url (scrape_website w sc url tags)"
proof -
  have load_error: "scrape_website w sc url tags = ''Web scraping error for '' @ url @ '': '' @ message e"
    if "chromium_load w url = Inl e" for e
    using that by (simp add: scrape_website_def scrape_try_def Let_def)
  have no_docs: "scrape_website w sc url tags = ''Failed to load content from '' @ url"
    if "chromium_load w url = Inr []"
    using that by (simp add: scrape_website_def scrape_try_def Let_def)
  have extract_error: "scrape_website w sc url tags = ''Web scraping error for '' @ url @ '': '' @ message e"
    if "chromium_load w url = Inr docs" "docs \<noteq> []"
       "transform_documents w docs (case tags of None \<Rightarrow> get_default_tags | Some ts \<Rightarrow> ts) = Inl e"
    for docs e
    using that by (simp add: scrape_website_def scrape_try_def Let_def)
  have no_content: "scrape_website w sc url tags = ''No content extracted from '' @ url"
    if "chromium_load w url = Inr docs" "docs \<noteq> []"
       "transform_documents w docs (case tags of None \<Rightarrow> get_default_tags | Some ts \<Rightarrow> ts) = Inr []"
    for docs
    using that by (simp add: scrape_website_def scrape_try_def Let_def)
  have page: "scrape_website w sc url tags
               = [CHR 0x0A] @ ''**Website Scraped:** '' @ url @ [CHR 0x0A]
                 @ ''**Content Extracted:**'' @ [CHR 0x0A, CHR 0x0A]
                 @ (if max_scrape_length (config sc) < int (length (page_content doc))
                    then take (nat (if max_scrape_length (config sc) < 0
                                    then int (length (page_content doc))
                                           + max_scrape_length (config sc)
                                    else max_scrape_length (config sc)))
                           (page_content doc)
                         @ [CHR 0x0A, CHR 0x0A] @ ''... (content truncated)''
                    else page_content doc)
                 @ [CHR 0x0A, CHR 0x0A]
                 @ ''**Note:** Complete website content for comprehensive analysis.''
                 @ [CHR 0x0A]"
    if "chromium_load w url = Inr docs" "docs \<noteq> []"
       "transform_documents w docs (case tags of None \<Rightarrow> get_default_tags | Some ts \<Rightarrow> ts)
          = Inr (doc # rest)"
    for docs doc rest
    using that
    by (simp add: scrape_website_def scrape_try_def Let_def scraped_page_def
          truncation_note_def nl_def slice_to_def)
  from load_error no_docs extract_error no_content page scrape_website_contains_url [of url w sc tags]
  show ?thesis by blast
qed

theorem scrape_website_always_text_witness:
  "chromium_load server_unreachable ''https://nowhere.invalid/'' = Inl (Exn OtherError ''net::ERR_NAME_NOT_RESOLVED'')
   \<and> scrape_website server_unreachable clients0 ''https://nowhere.invalid/'' None
       = ''Web scraping error for https://nowhere.invalid/: net::ERR_NAME_NOT_RESOLVED''
   \<and> chromium_load server_empty ''https://a.example/'' = Inr []
   \<and> scrape_website server_empty clients0 ''https://a.example/'' None
       = ''Failed to load content from https://a.example/''
   \<and> max_scrape_length (config clients0) = 4
   \<and> transform_documents server_found [Document ''<p>abcdefgh</p>''] [''p'']
       = Inr [Document ''abcdefgh'']
   \<and> scrape_website server_found clients0 ''https://a.example/'' (Some [''p''])
       = [CHR 0x0A] @ ''**Website Scraped:** https://a.example/'' @ [CHR 0x0A]
         @ ''**Content Extracted:**'' @ [CHR 0x0A, CHR 0x0A]
         @ ''abcd'' @ [CHR 0x0A, CHR 0x0A] @ ''... (content truncated)''
         @ [CHR 0x0A, CHR 0x0A]
         @ ''**Note:** Complete website content for comprehensive analysis.'' @ [CHR 0x0A]
   \<and> transform_documents server_short [Document ''<p>abc</p>''] get_default_tags
       = Inr [Document ''abc'']
   \<and> scrape_website server_short clients0 ''https://a.example/'' None
       = [CHR 0x0A] @ ''**Website Scraped:** https://a.example/'' @ [CHR 0x0A]
         @ ''**Content Extracted:**'' @ [CHR 0x0A, CHR 0x0A]
         @ ''abc''
         @ [CHR 0x0A, CHR 0x0A]
         @ ''**Note:** Complete website content for comprehensive analysis.'' @ [CHR 0x0A]
   \<and> sublist ''https://a.example/'' (scrape_website server_found clients0 ''https://a.example/'' (Some [''p'']))"
proof -
  have l1: "chromium_load server_unreachable ''https://nowhere.invalid/''
              = Inl (Exn OtherError ''net::ERR_NAME_NOT_RESOLVED'')"
    by (simp add: server_unreachable_def)
  have l2: "chromium_load server_empty ''https://a.example/'' = Inr []"
    by (simp add: server_empty_def)
  have l3: "chromium_load server_found ''https://a.example/'' = Inr [Document ''<p>abcdefgh</p>'']"
    by (simp add: server_found_def)
  have t3: "transform_documents server_found [Document ''<p>abcdefgh</p>''] [''p'']
              = Inr [Document ''abcdefgh'']"
    by (simp add: server_found_def)
  have l4: "chromium_load server_short ''https://a.example/'' = Inr [Document ''<p>abc</p>'']"
    by (simp add: server_short_def)
  have t4: "transform_documents server_short [Document ''<p>abc</p>''] get_default_tags
              = Inr [Document ''abc'']"
    by (simp add: server_short_def)
  have m: "max_scrape_length (config clients0) = 4"
    by (simp add: clients0_def)
  from scrape_website_always_text [of server_unreachable "''https://nowhere.invalid/''" clients0 None] l1
  have r1: "scrape_website server_unreachable clients0 ''https://nowhere.invalid/'' None
       = ''Web scraping error for https://nowhere.invalid/: net::ERR_NAME_NOT_RESOLVED''"
    by simp
  from scrape_website_always_text [of server_empty "''https://a.example/''" clients0 None] l2
  have r2: "scrape_website server_empty clients0 ''https://a.example/'' None
       = ''Failed to load content from https://a.example/''"
    by simp
  from scrape_website_always_text [of server_found "''https://a.example/''" clients0 "Some [''p'']"]
    l3 t3 m
  have r3: "scrape_website server_found clients0 ''https://a.example/'' (Some [''p''])
       = [CHR 0x0A] @ ''**Website Scraped:** https://a.example/'' @ [CHR 0x0A]
         @ ''**Content Extracted:**'' @ [CHR 0x0A, CHR 0x0A]
         @ ''abcd'' @ [CHR 0x0A, CHR 0x0A] @ ''... (content truncated)''
         @ [CHR 0x0A, CHR 0x0A]
         @ ''**Note:** Complete website content for comprehensive analysis.'' @ [CHR 0x0A]"
    by simp
  from scrape_website_always_text [of server_short "''https://a.example/''" clients0 None]
    l4 t4 m
  have r4: "scrape_website server_short clients0 ''https://a.example/'' None
       = [CHR 0x0A] @ ''**Website Scraped:** https://a.example/'' @ [CHR 0x0A]
         @ ''**Content Extracted:**'' @ [CHR 0x0A, CHR 0x0A]
         @ ''abc''
         @ [CHR 0x0A, CHR 0x0A]
         @ ''**Note:** Complete website content for comprehensive analysis.'' @ [CHR 0x0A]"
    by simp
  from scrape_website_always_text [of server_found "''https://a.example/''" clients0 "Some [''p'']"]
  have r5: "sublist ''https://a.example/'' (scrape_website server_found clients0 ''https://a.example/'' (Some [''p'']))"
    by blast
  from l1 l2 t3 t4 m r1 r2 r3 r4 r5 show ?thesis by blast
qed

text \<open>
  C7. When the search provider answers with an empty result list, \<open>search_documentation\<close>
  returns the fixed text that no results were found, for every query, site list and
  choice of the optional arguments.
\<close>

theorem search_documentation_no_results:
  assumes "tavily_search w (tavily_client sc) query (final_max_results (config sc) arg_mr)
             (final_depth (config sc) arg_depth) sites = Inr (Some [])"
  shows "search_documentation w sc query sites arg_mr arg_depth
           = ''No results found. Try a different search query or check if domains are accessible.''"
  using assms by (simp add: search_documentation_def search_try_def Let_def no_results_message_def)

theorem search_documentation_no_results_witness:
  "tavily_search server_empty (tavily_client clients0) ''q'' (final_max_results (config clients0) (Some 3))
     (final_depth (config clients0) None) [''docs.python.org''] = Inr (Some [])
   \<and> search_documentation server_empty clients0 ''q'' [''docs.python.org''] (Some 3) None
       = ''No results found. Try a different search query or check if domains are accessible.''"
proof -
  have h: "tavily_search server_empty (tavily_client clients0) ''q''
             (final_max_results (config clients0) (Some 3))
             (final_depth (config clients0) None) [''docs.python.org''] = Inr (Some [])"
    by (simp add: server_empty_def)
  from search_documentation_no_results [OF h] h show ?thesis by simp
qed

text \<open>
  C10. A \<open>max_results\<close> argument of 0 is treated as an absent argument: the number passed to
  the provider and used to cut the result list is the configured \<open>max_results\<close>, and it is
  zero only if the configured value is. In the same way an empty \<open>depth\<close> argument gives the
  configured search depth.
\<close>

theorem zero_max_results_uses_default:
  "final_max_results cfg (Some 0) = max_results cfg
   \<and> final_depth cfg (Some []) = search_depth cfg
   \<and> search_try w sc query sites (Some 0) (Some [])
       = (case tavily_search w (tavily_client sc) query (max_results (config sc))
                 (search_depth (config sc)) sites of
            Inl e \<Rightarrow> Inl e
          | Inr None \<Rightarrow> Inr no_results_message
          | Inr (Some rs) \<Rightarrow>
              if rs = [] then Inr no_results_message
              else Inr (summarize w sc
                          (join nl (format_search_results
                                      (slice_to (max_results (config sc)) rs)
                                      (max_content_size (config sc)))) query))
   \<and> search_documentation w sc query sites (Some 0) arg_depth
       = search_documentation w sc query sites None arg_depth
   \<and> search_documentation w sc query sites arg_mr (Some [])
       = search_documentation w sc query sites arg_mr None"
  by (simp add: final_max_results_def final_depth_def search_documentation_def search_try_def
        Let_def split: sum.splits option.splits)

text \<open>
  C9. With the session store in place, \<open>get_or_create_agent\<close> returns the agent registered
  under a known token and leaves the application state as it was; for an unknown token
  it constructs an agent and, if the construction succeeds, registers it under that
  token without touching the other entries, and if the construction raises it leaves
  the registry as it was.
\<close>

theorem get_or_create_agent_registry:
  assumes "user_sessions st = Some sessions"
  shows "(\<forall>a. sessions session_id = Some a \<longrightarrow>
             get_or_create_agent w st session_id = (Inr a, st))
         \<and> (sessions session_id = None \<longrightarrow>
             (\<forall>a. DomainQAAgent_init w ''sites_data.csv'' (Some (app_config st)) = Inr a \<longrightarrow>
                  get_or_create_agent w st session_id
                    = (Inr a, st\<lparr>user_sessions := Some (sessions(session_id \<mapsto> a))\<rparr>))
             \<and> (\<forall>e. DomainQAAgent_init w ''sites_data.csv'' (Some (app_config st)) = Inl e \<longrightarrow>
                  get_or_create_agent w st session_id = (Inl e, st)))"
  using assms by (simp add: get_or_create_agent_def)

theorem get_or_create_agent_registry_witness:
  "user_sessions state0 = Some [''s1'' \<mapsto> agent0]
   \<and> get_or_create_agent world_up state0 ''s1'' = (Inr agent0, state0)
   \<and> [''s1'' \<mapsto> agent0] ''s2'' = None
   \<and> DomainQAAgent_init world_up ''sites_data.csv'' (Some (app_config state0))
        = Inr (agent0\<lparr>agent_config := config0, chat_history := []\<rparr>)
   \<and> get_or_create_agent world_up state0 ''s2''
        = (Inr (agent0\<lparr>agent_config := config0, chat_history := []\<rparr>),
           state0\<lparr>user_sessions :=
                    Some [''s1'' \<mapsto> agent0,
                          ''s2'' \<mapsto> agent0\<lparr>agent_config := config0, chat_history := []\<rparr>]\<rparr>)"
proof -
  have h: "user_sessions state0 = Some [''s1'' \<mapsto> agent0]"
    by (simp add: state0_def)
  have n: "[''s1'' \<mapsto> agent0] ''s2'' = None"
    by simp
  have i: "DomainQAAgent_init world_up ''sites_data.csv'' (Some (app_config state0))
             = Inr (agent0\<lparr>agent_config := config0, chat_history := []\<rparr>)"
    by (simp add: DomainQAAgent_init_def world_up_def load_sites_data_def df0_def
          required_columns_def create_llm_def getitem_def dict_get_def state0_def config0_def
          agent0_def llm0_def)
  from get_or_create_agent_registry [OF h, of "''s1''" world_up]
       get_or_create_agent_registry [OF h, of "''s2''" world_up] h n i
  show ?thesis by simp
qed

end
